theory Spec2Isabelle
  imports Main Complex_Main "HOL-Library.Sublist"
begin

section \<open>Text segmenter: \<open>split_message\<close> of utils.py\<close>

text \<open>
  Python strings are modelled as \<open>string\<close> (character lists), Python's unbounded
  integers as \<open>int\<close>. An exception that leaves a function is a value \<open>Inl e\<close>.
\<close>

datatype py_error = ValueError

text \<open>
  \<open>text.split(sep)\<close> for a separator: the text is scanned from the left, every
  leftmost occurrence of \<open>sep\<close> closes the current piece, and the (possibly empty)
  remainder is the last piece. Python raises ValueError for an empty separator.
\<close>

fun split_from :: "string \<Rightarrow> string \<Rightarrow> string \<Rightarrow> string list" where
  "split_from sep piece [] = [piece]"
| "split_from sep piece (c # cs) =
     (if sep \<noteq> [] \<and> prefix sep (c # cs)
      then piece # split_from sep [] (drop (length sep) (c # cs))
      else split_from sep (piece @ [c]) cs)"

definition str_split :: "string \<Rightarrow> string \<Rightarrow> py_error + string list" where
  "str_split text sep = (if sep = [] then Inl ValueError else Inr (split_from sep [] text))"

text \<open>\<open>range(start, stop, step)\<close> for a positive step, read as the loop it stands for.\<close>

function range_from :: "nat \<Rightarrow> nat \<Rightarrow> nat \<Rightarrow> nat list" where
  "range_from i stop step =
     (if 0 < step \<and> i < stop then i # range_from (i + step) stop step else [])"
  by pat_completeness auto
termination
  by (relation "measure (\<lambda>(i, stop, step). stop - i)") auto

declare range_from.simps [simp del]

text \<open>
  The list comprehension \<open>[paragraph[i:i+max_length] for i in range(0, len(paragraph),
  max_length)]\<close>. A step of zero makes \<open>range\<close> raise ValueError, a negative step
  gives the empty range (the start 0 is never above the stop).
\<close>

definition sub_chunks :: "string \<Rightarrow> int \<Rightarrow> py_error + string list" where
  "sub_chunks paragraph max_length =
     (if max_length = 0 then Inl ValueError
      else if max_length < 0 then Inr []
      else Inr (map (\<lambda>i. take (nat max_length) (drop i paragraph))
                 (range_from 0 (length paragraph) (nat max_length))))"

definition paragraph_sep :: string where
  "paragraph_sep = [CHR 0x0A, CHR 0x0A]"

definition sentence_sep :: string where
  "sentence_sep = ''. ''"

text \<open>
  The inner loop over the sentences of one paragraph. The loop state is the pair of the
  closed chunks and the running chunk \<open>current_chunk\<close>.
\<close>

fun sentence_loop ::
  "int \<Rightarrow> string \<Rightarrow> string list \<Rightarrow> string list \<times> string \<Rightarrow> py_error + string list \<times> string"
where
  "sentence_loop max_length paragraph [] st = Inr st"
| "sentence_loop max_length paragraph (sentence # rest) (chunks, current_chunk) =
     (if int (length current_chunk) + int (length sentence) + 2 > max_length then
        (if current_chunk \<noteq> [] then
           sentence_loop max_length paragraph rest
             (chunks @ [current_chunk], sentence @ sentence_sep)
         else
           (case sub_chunks paragraph max_length of
              Inl e \<Rightarrow> Inl e
            | Inr subs \<Rightarrow> sentence_loop max_length paragraph rest (chunks @ subs, current_chunk)))
      else
        sentence_loop max_length paragraph rest
          (chunks, current_chunk @ sentence @ sentence_sep))"

text \<open>The outer loop over the paragraphs.\<close>

fun paragraph_loop ::
  "int \<Rightarrow> string list \<Rightarrow> string list \<times> string \<Rightarrow> py_error + string list \<times> string"
where
  "paragraph_loop max_length [] st = Inr st"
| "paragraph_loop max_length (paragraph # rest) (chunks, current_chunk) =
     (if int (length current_chunk) + int (length paragraph) + 2 > max_length then
        (if current_chunk \<noteq> [] then
           paragraph_loop max_length rest (chunks @ [current_chunk], paragraph)
         else
           (case str_split paragraph sentence_sep of
              Inl e \<Rightarrow> Inl e
            | Inr sentences \<Rightarrow>
                (case sentence_loop max_length paragraph sentences (chunks, current_chunk) of
                   Inl e \<Rightarrow> Inl e
                 | Inr st \<Rightarrow> paragraph_loop max_length rest st)))
      else
        (if current_chunk \<noteq> [] then
           paragraph_loop max_length rest (chunks, current_chunk @ paragraph_sep @ paragraph)
         else
           paragraph_loop max_length rest (chunks, paragraph)))"

definition split_message :: "string \<Rightarrow> int \<Rightarrow> py_error + string list" where
  "split_message text max_length =
     (if int (length text) \<le> max_length then Inr [text]
      else
        (case str_split text paragraph_sep of
           Inl e \<Rightarrow> Inl e
         | Inr paragraphs \<Rightarrow>
             (case paragraph_loop max_length paragraphs ([], []) of
                Inl e \<Rightarrow> Inl e
              | Inr (chunks, current_chunk) \<Rightarrow>
                  Inr (if current_chunk \<noteq> [] then chunks @ [current_chunk] else chunks))))"

section \<open>Rate limiter: \<open>UserService.check_rate_limit\<close> of user_service.py\<close>

text \<open>
  The class attribute \<open>_rate_limits\<close> is a dictionary from user ids to lists of
  timestamps; it is passed in and returned updated. The reading of the clock
  (\<open>time.time()\<close>) is the argument \<open>current_time\<close>. Instants are modelled as real
  numbers, the limit and the window as the integers of the signature.
\<close>

type_synonym rate_limits = "int \<rightharpoonup> real list"

definition stored_timestamps :: "rate_limits \<Rightarrow> int \<Rightarrow> real list" where
  "stored_timestamps rl user_id = (case rl user_id of None \<Rightarrow> [] | Some ts \<Rightarrow> ts)"

definition prune :: "real \<Rightarrow> int \<Rightarrow> real list \<Rightarrow> real list" where
  "prune current_time time_window timestamps =
     filter (\<lambda>ts. current_time - ts < real_of_int time_window) timestamps"

definition check_rate_limit ::
  "rate_limits \<Rightarrow> real \<Rightarrow> int \<Rightarrow> int \<Rightarrow> int \<Rightarrow> bool \<times> rate_limits"
where
  "check_rate_limit rl current_time user_id limit time_window =
     (let rl1 = (if user_id \<notin> dom rl then rl(user_id \<mapsto> []) else rl);
          timestamps = stored_timestamps rl1 user_id;
          timestamps = prune current_time time_window timestamps;
          rl2 = rl1(user_id \<mapsto> timestamps)
      in if int (length timestamps) \<ge> limit then (False, rl2)
         else (True, rl2(user_id \<mapsto> timestamps @ [current_time])))"

section \<open>Delivery formatter: \<open>safe_send_message\<close> of utils.py\<close>

text \<open>
  One call of \<open>context.bot.send_message\<close> carries the chat id, the text (field
  \<open>msg_text\<close>), the parse mode and the reply markup. The transport either returns, raises \<open>BadRequest\<close>, or
  raises another exception; what it does may depend on the calls made before, so a
  transport is a function of the calls so far and the present call. The function
  returns its result together with the calls it made, in order.
\<close>

record 'm send_request =
  chat_id :: int
  msg_text :: string
  parse_mode :: "string option"
  reply_markup :: "'m option"

datatype outcome = Sent | BadRequest | OtherError

datatype send_error = Raised

type_synonym 'm transport = "'m send_request list \<Rightarrow> 'm send_request \<Rightarrow> outcome"

definition escape_chars :: string where
  "escape_chars = ''_*[]()~`>#+-=|{}.!''"

definition str_replace_char :: "char \<Rightarrow> string \<Rightarrow> string \<Rightarrow> string" where
  "str_replace_char c new s = concat (map (\<lambda>x. if x = c then new else [x]) s)"

definition sanitize_markdown :: "string \<Rightarrow> string" where
  "sanitize_markdown s =
     (if s = [] then []
      else fold (\<lambda>c t. str_replace_char c [CHR 0x5C, c] t) escape_chars s)"

definition strip_markdown :: "string \<Rightarrow> string" where
  "strip_markdown s = filter (\<lambda>c. c \<notin> set ''*_`[]()'') s"

definition plain_strategy ::
  "'m transport \<Rightarrow> 'm send_request list \<Rightarrow> int \<Rightarrow> string \<Rightarrow> 'm option
     \<Rightarrow> (send_error + bool) \<times> 'm send_request list"
where
  "plain_strategy send calls cid s markup =
     (let r3 = \<lparr>chat_id = cid, msg_text = strip_markdown s, parse_mode = None,
                reply_markup = markup\<rparr>
      in case send calls r3 of
           Sent \<Rightarrow> (Inr True, calls @ [r3])
         | BadRequest \<Rightarrow> (Inr False, calls @ [r3])
         | OtherError \<Rightarrow> (Inr False, calls @ [r3]))"

definition safe_send_message ::
  "'m transport \<Rightarrow> int option \<Rightarrow> string \<Rightarrow> string option \<Rightarrow> 'm option
     \<Rightarrow> (send_error + bool) \<times> 'm send_request list"
where
  "safe_send_message send effective_chat s mode markup =
     (case effective_chat of
        None \<Rightarrow> (Inr False, [])
      | Some cid \<Rightarrow>
          (let r1 = \<lparr>chat_id = cid, msg_text = s, parse_mode = mode, reply_markup = markup\<rparr>
           in case send [] r1 of
                Sent \<Rightarrow> (Inr True, [r1])
              | OtherError \<Rightarrow> (Inl Raised, [r1])
              | BadRequest \<Rightarrow>
                  (if mode = Some ''Markdown'' then
                     (let r2 = \<lparr>chat_id = cid, msg_text = sanitize_markdown s,
                                parse_mode = Some ''MarkdownV2'', reply_markup = markup\<rparr>
                      in case send [r1] r2 of
                           Sent \<Rightarrow> (Inr True, [r1, r2])
                         | OtherError \<Rightarrow> (Inl Raised, [r1, r2])
                         | BadRequest \<Rightarrow> plain_strategy send [r1, r2] cid s markup)
                   else plain_strategy send [r1] cid s markup)))"

section \<open>Properties of the text segmenter\<close>

lemma split_from_no_sep:
  "sep \<noteq> [] \<Longrightarrow> hd sep \<notin> set s \<Longrightarrow> split_from sep piece s = [piece @ s]"
proof (induction s arbitrary: piece)
  case Nil
  then show ?case by simp
next
  case (Cons c cs)
  from Cons.prems have "\<not> prefix sep (c # cs)"
    by (cases sep) auto
  with Cons show ?case by simp
qed

lemma str_split_replicate:
  "sep \<noteq> [] \<Longrightarrow> hd sep \<noteq> c \<Longrightarrow> str_split (replicate n c) sep = Inr [replicate n c]"
  by (simp add: str_split_def split_from_no_sep)

lemma range_from_10000: "range_from 0 10000 4000 = [0, 4000, 8000]"
  by (simp add: range_from.simps)

lemma sub_chunks_10000:
  "sub_chunks (replicate 10000 c) 4000 =
     Inr [replicate 4000 c, replicate 4000 c, replicate 2000 c]"
  by (simp add: sub_chunks_def range_from_10000)

text \<open>
  C1 (every chunk returned by \<open>split_message(text, max_length)\<close> has length at most
  \<open>max_length\<close>, for every text and every \<open>max_length >= 1\<close>). The code does not keep
  this bound: when the running chunk is not empty and the next paragraph does not fit,
  the paragraph becomes the new running chunk without any check of its own length. For
  the text \<open>a\n\nbbbbb\<close> and \<open>max_length = 3\<close> the second chunk has five characters;
  for a short first paragraph followed by a paragraph of 5000 characters, at the default
  \<open>max_length = 4000\<close>, the second chunk has 5000 characters.
\<close>

theorem split_message_chunk_exceeds:
  "split_message (''a'' @ [CHR 0x0A, CHR 0x0A] @ ''bbbbb'') 3 = Inr [''a'', ''bbbbb'']
   \<and> length ''bbbbb'' = 5
   \<and> split_message (''Intro'' @ [CHR 0x0A, CHR 0x0A] @ replicate 5000 CHR ''b'') 4000 =
       Inr [''Intro'', replicate 5000 CHR ''b'']
   \<and> length (replicate 5000 CHR ''b'') = 5000"
  by (simp add: split_message_def str_split_def paragraph_sep_def sentence_sep_def
      split_from_no_sep)

text \<open>
  C2 (joining the chunks, with the separators used to split put back, gives the input
  text again, for texts made of paragraphs and sentences of ordinary lengths). The
  sentence tier appends \<open>". "\<close> to every sentence, the last one included, so the chunks
  of \<open>aaa. bbb. ccc\<close> at \<open>max_length = 8\<close> end in a \<open>". "\<close> that the input does not
  have: their plain concatenation differs from the input, and since the last chunk is
  not an ending of the input, so does every joining that puts separators between them.
\<close>

theorem split_message_sentence_round_trip_fails:
  "split_message ''aaa. bbb. ccc'' 8 = Inr [''aaa. '', ''bbb. '', ''ccc. '']
   \<and> concat [''aaa. '', ''bbb. '', ''ccc. ''] \<noteq> ''aaa. bbb. ccc''
   \<and> \<not> suffix ''ccc. '' ''aaa. bbb. ccc''"
  by (simp add: split_message_def str_split_def paragraph_sep_def sentence_sep_def
      suffix_to_prefix)

text \<open>
  C9 (tier escalation): one paragraph of 10000 characters \<open>a\<close>, with neither a blank
  line nor a sentence delimiter, is cut at \<open>max_length = 4000\<close> into exactly three raw
  slices of 4000, 4000 and 2000 characters, in this order.
\<close>

theorem split_message_tier_escalation:
  "split_message (replicate 10000 CHR ''a'') 4000 =
     Inr [replicate 4000 CHR ''a'', replicate 4000 CHR ''a'', replicate 2000 CHR ''a'']"
  by (simp add: split_message_def str_split_replicate paragraph_sep_def sentence_sep_def
      sub_chunks_10000)

text \<open>
  C10: for every \<open>max_length >= 1\<close> the empty text is returned as the one-element list
  \<open>[""]\<close>, never as the empty list.
\<close>

theorem split_message_empty:
  "1 \<le> max_length \<Longrightarrow> split_message [] max_length = Inr [[]]"
  by (simp add: split_message_def)

theorem split_message_empty_witness:
  "(1::int) \<le> 4000 \<and> split_message [] 4000 = Inr [[]]"
  using split_message_empty [of 4000] by simp

section \<open>Properties of the rate limiter\<close>

lemma stored_timestamps_upd [simp]: "stored_timestamps (rl(u \<mapsto> ts)) u = ts"
  by (simp add: stored_timestamps_def)

lemma check_rate_limit_unfold:
  "check_rate_limit rl now u limit w =
     (let ts = prune now w (stored_timestamps rl u)
      in if limit \<le> int (length ts) then (False, rl(u \<mapsto> ts))
         else (True, rl(u \<mapsto> ts @ [now])))"
  by (auto simp: check_rate_limit_def stored_timestamps_def Let_def dom_def split: option.splits)

text \<open>
  C3 (sliding window): for an identity without an entry, with \<open>limit = 3\<close> and
  \<open>time_window = 60\<close>, three calls in immediate succession are admitted, a fourth one
  is rejected, and a fifth call 61 seconds later is admitted. "In immediate succession"
  is taken as: the clock does not go back between the four calls and they all fall
  within the window of the first one, which covers four calls at the same instant.
\<close>

theorem check_rate_limit_sliding_window:
  assumes "rl user_id = None"
    and "t1 \<le> t2" and "t2 \<le> t3" and "t3 \<le> t4" and "t4 - t1 < 60"
  shows
    "(let (r1, s1) = check_rate_limit rl t1 user_id 3 60;
          (r2, s2) = check_rate_limit s1 t2 user_id 3 60;
          (r3, s3) = check_rate_limit s2 t3 user_id 3 60;
          (r4, s4) = check_rate_limit s3 t4 user_id 3 60;
          (r5, s5) = check_rate_limit s4 (t4 + 61) user_id 3 60
      in r1 \<and> r2 \<and> r3 \<and> \<not> r4 \<and> r5)"
  using assms
  by (simp add: check_rate_limit_unfold Let_def prune_def stored_timestamps_def)

theorem check_rate_limit_sliding_window_witness:
  "(Map.empty :: rate_limits) 7 = None \<and> (100::real) \<le> 100 \<and> (100::real) - 100 < 60
   \<and> (let (r1, s1) = check_rate_limit Map.empty 100 7 3 60;
            (r2, s2) = check_rate_limit s1 100 7 3 60;
            (r3, s3) = check_rate_limit s2 100 7 3 60;
            (r4, s4) = check_rate_limit s3 100 7 3 60;
            (r5, s5) = check_rate_limit s4 161 7 3 60
        in r1 \<and> r2 \<and> r3 \<and> \<not> r4 \<and> r5)"
  using check_rate_limit_sliding_window [of Map.empty 7 100 100 100 100]
  by simp

text \<open>
  C6 (invariant): after a call that returns true the list stored for the identity has
  at most \<open>limit\<close> entries; and entries older than the window are never counted: the
  verdict is decided by the number of stored entries \<open>ts\<close> with
  \<open>current_time - ts < time_window\<close> alone, so any entries at least \<open>time_window\<close>
  old put in front of the stored list leave the verdict as it is.
\<close>

theorem check_rate_limit_admission_invariant:
  "(fst (check_rate_limit rl current_time user_id limit time_window) \<longrightarrow>
      int (length (stored_timestamps
             (snd (check_rate_limit rl current_time user_id limit time_window)) user_id)) \<le> limit)
   \<and> (fst (check_rate_limit rl current_time user_id limit time_window) \<longleftrightarrow>
        int (length [ts \<leftarrow> stored_timestamps rl user_id.
                       current_time - ts < real_of_int time_window]) < limit)
   \<and> (\<forall>old. (\<forall>ts \<in> set old. current_time - ts \<ge> real_of_int time_window) \<longrightarrow>
        fst (check_rate_limit (rl(user_id \<mapsto> old @ stored_timestamps rl user_id))
               current_time user_id limit time_window) =
        fst (check_rate_limit rl current_time user_id limit time_window))"
proof -
  have old_pruned: "prune current_time time_window (old @ xs) = prune current_time time_window xs"
    if "\<forall>ts \<in> set old. current_time - ts \<ge> real_of_int time_window" for old xs
    using that by (induction old) (auto simp: prune_def)
  show ?thesis
    by (simp add: check_rate_limit_unfold Let_def old_pruned) (simp add: prune_def)
qed

theorem check_rate_limit_admission_invariant_witness:
  "fst (check_rate_limit [7 \<mapsto> [0, 50]] 70 7 2 60)
   \<and> stored_timestamps (snd (check_rate_limit [7 \<mapsto> [0, 50]] 70 7 2 60)) 7 = [50, 70]
   \<and> int (length (stored_timestamps (snd (check_rate_limit [7 \<mapsto> [0, 50]] 70 7 2 60)) 7)) \<le> 2
   \<and> (70::real) - 5 \<ge> real_of_int 60 \<and> (70::real) - 10 \<ge> real_of_int 60
   \<and> fst (check_rate_limit [7 \<mapsto> [5, 10, 0, 50]] 70 7 2 60)"
  using check_rate_limit_admission_invariant [of "[7 \<mapsto> [0, 50]]" 70 7 2 60]
  by (simp add: check_rate_limit_unfold prune_def)

text \<open>
  C7 (rejection): when the pruned list of the identity has at least \<open>limit\<close> entries,
  the call returns false and stores exactly the pruned list; the rejected attempt is
  not recorded.
\<close>

theorem check_rate_limit_reject:
  assumes "limit \<le> int (length (prune current_time time_window (stored_timestamps rl user_id)))"
  shows "check_rate_limit rl current_time user_id limit time_window =
           (False, rl(user_id \<mapsto> prune current_time time_window (stored_timestamps rl user_id)))"
  using assms by (simp add: check_rate_limit_unfold Let_def)

theorem check_rate_limit_reject_witness:
  "(2::int) \<le> int (length (prune 70 60 (stored_timestamps [7 \<mapsto> [0, 50, 60]] 7)))
   \<and> check_rate_limit [7 \<mapsto> [0, 50, 60]] 70 7 2 60 = (False, [7 \<mapsto> [50, 60]])"
  using check_rate_limit_reject [of 2 70 60 "[7 \<mapsto> [0, 50, 60]]" 7]
  by (simp add: prune_def)

text \<open>
  C8 (non-positive limit): with \<open>limit <= 0\<close> the call returns false, for every
  identity, every stored history, every clock reading and every window.
\<close>

theorem check_rate_limit_nonpositive_limit:
  "limit \<le> 0 \<Longrightarrow> fst (check_rate_limit rl current_time user_id limit time_window) = False"
  by (simp add: check_rate_limit_unfold Let_def)

theorem check_rate_limit_nonpositive_limit_witness:
  "(0::int) \<le> 0 \<and> fst (check_rate_limit Map.empty 100 7 0 60) = False
   \<and> fst (check_rate_limit [7 \<mapsto> [1, 2]] 1000 7 (- 1) 60) = False"
  using check_rate_limit_nonpositive_limit [of 0 Map.empty 100 7 60]
    check_rate_limit_nonpositive_limit [of "- 1" "[7 \<mapsto> [1, 2]]" 1000 7 60]
  by simp

section \<open>Properties of the delivery formatter\<close>

text \<open>
  C4 (fallback sequencing): called with the parse mode \<open>Markdown\<close>, when the transport
  rejects the first two calls with \<open>BadRequest\<close> and accepts the third, the function
  returns true after exactly three transport calls: the text as given in mode
  \<open>Markdown\<close>, the sanitized text in mode \<open>MarkdownV2\<close>, and last, with no parse
  mode, the original text with every character among \<open>* _ ` [ ] ( )\<close> removed.
\<close>

theorem safe_send_message_fallback_sequencing:
  fixes send :: "'m transport" and cid :: int and s :: string and markup :: "'m option"
  defines "r1 \<equiv> \<lparr>chat_id = cid, msg_text = s, parse_mode = Some ''Markdown'',
                 reply_markup = markup\<rparr>"
    and "r2 \<equiv> \<lparr>chat_id = cid, msg_text = sanitize_markdown s,
                 parse_mode = Some ''MarkdownV2'', reply_markup = markup\<rparr>"
    and "r3 \<equiv> \<lparr>chat_id = cid,
                 msg_text = filter (\<lambda>c. c \<notin> {CHR ''*'', CHR ''_'', CHR 0x60, CHR ''['',
                                              CHR '']'', CHR ''('', CHR '')''}) s,
                 parse_mode = None, reply_markup = markup\<rparr>"
  assumes "send [] r1 = BadRequest"
    and "send [r1] r2 = BadRequest"
    and "send [r1, r2] r3 = Sent"
  shows "safe_send_message send (Some cid) s (Some ''Markdown'') markup =
           (Inr True, [r1, r2, r3])"
  using assms
  by (simp add: safe_send_message_def plain_strategy_def strip_markdown_def Let_def)

theorem safe_send_message_fallback_sequencing_witness:
  "safe_send_message
     (\<lambda>calls (r :: unit send_request). if length calls < 2 then BadRequest else Sent)
     (Some 42) ''*Hi* [you](x) `a_b`'' (Some ''Markdown'') None =
     (Inr True,
      [\<lparr>chat_id = 42, msg_text = ''*Hi* [you](x) `a_b`'', parse_mode = Some ''Markdown'',
         reply_markup = None\<rparr>,
       \<lparr>chat_id = 42, msg_text = sanitize_markdown ''*Hi* [you](x) `a_b`'',
         parse_mode = Some ''MarkdownV2'', reply_markup = None\<rparr>,
       \<lparr>chat_id = 42, msg_text = ''Hi youx ab'', parse_mode = None, reply_markup = None\<rparr>])"
  using safe_send_message_fallback_sequencing
    [of "\<lambda>calls (r :: unit send_request). if length calls < 2 then BadRequest else Sent"
        42 "''*Hi* [you](x) `a_b`''" None]
  by simp

text \<open>
  C5 (hard failure, and success at the first tier that works): called with the parse
  mode \<open>Markdown\<close>, when the transport rejects the first two calls with \<open>BadRequest\<close>
  and the plain call fails in any way, the function returns false after exactly three
  transport calls; and it returns true at the first call the transport accepts, after
  one, two or three calls.
\<close>

theorem safe_send_message_results:
  fixes send :: "'m transport" and cid :: int and s :: string and markup :: "'m option"
  defines "r1 \<equiv> \<lparr>chat_id = cid, msg_text = s, parse_mode = Some ''Markdown'',
                 reply_markup = markup\<rparr>"
    and "r2 \<equiv> \<lparr>chat_id = cid, msg_text = sanitize_markdown s,
                 parse_mode = Some ''MarkdownV2'', reply_markup = markup\<rparr>"
    and "r3 \<equiv> \<lparr>chat_id = cid, msg_text = strip_markdown s, parse_mode = None,
                 reply_markup = markup\<rparr>"
    and "result \<equiv> safe_send_message send (Some cid) s (Some ''Markdown'') markup"
  shows "(send [] r1 = BadRequest \<and> send [r1] r2 = BadRequest \<and> send [r1, r2] r3 \<noteq> Sent
            \<longrightarrow> result = (Inr False, [r1, r2, r3]))
       \<and> (send [] r1 = Sent \<longrightarrow> result = (Inr True, [r1]))
       \<and> (send [] r1 = BadRequest \<and> send [r1] r2 = Sent \<longrightarrow> result = (Inr True, [r1, r2]))
       \<and> (send [] r1 = BadRequest \<and> send [r1] r2 = BadRequest \<and> send [r1, r2] r3 = Sent
            \<longrightarrow> result = (Inr True, [r1, r2, r3]))"
  unfolding assms
  by (simp add: safe_send_message_def plain_strategy_def Let_def split: outcome.splits)

theorem safe_send_message_results_witness:
  "safe_send_message
     (\<lambda>calls (r :: unit send_request). if length calls < 2 then BadRequest else OtherError)
     (Some 42) ''a_b'' (Some ''Markdown'') None =
     (Inr False,
      [\<lparr>chat_id = 42, msg_text = ''a_b'', parse_mode = Some ''Markdown'', reply_markup = None\<rparr>,
       \<lparr>chat_id = 42, msg_text = sanitize_markdown ''a_b'', parse_mode = Some ''MarkdownV2'',
         reply_markup = None\<rparr>,
       \<lparr>chat_id = 42, msg_text = ''ab'', parse_mode = None, reply_markup = None\<rparr>])
   \<and> safe_send_message (\<lambda>calls (r :: unit send_request). BadRequest)
        (Some 42) ''a_b'' (Some ''Markdown'') None =
     (Inr False,
      [\<lparr>chat_id = 42, msg_text = ''a_b'', parse_mode = Some ''Markdown'', reply_markup = None\<rparr>,
       \<lparr>chat_id = 42, msg_text = sanitize_markdown ''a_b'', parse_mode = Some ''MarkdownV2'',
         reply_markup = None\<rparr>,
       \<lparr>chat_id = 42, msg_text = ''ab'', parse_mode = None, reply_markup = None\<rparr>])
   \<and> safe_send_message (\<lambda>calls (r :: unit send_request). Sent)
        (Some 42) ''a_b'' (Some ''Markdown'') None =
     (Inr True,
      [\<lparr>chat_id = 42, msg_text = ''a_b'', parse_mode = Some ''Markdown'', reply_markup = None\<rparr>])
   \<and> safe_send_message
        (\<lambda>calls (r :: unit send_request). if length calls < 1 then BadRequest else Sent)
        (Some 42) ''a_b'' (Some ''Markdown'') None =
     (Inr True,
      [\<lparr>chat_id = 42, msg_text = ''a_b'', parse_mode = Some ''Markdown'', reply_markup = None\<rparr>,
       \<lparr>chat_id = 42, msg_text = sanitize_markdown ''a_b'', parse_mode = Some ''MarkdownV2'',
         reply_markup = None\<rparr>])
   \<and> safe_send_message
        (\<lambda>calls (r :: unit send_request). if length calls < 2 then BadRequest else Sent)
        (Some 42) ''a_b'' (Some ''Markdown'') None =
     (Inr True,
      [\<lparr>chat_id = 42, msg_text = ''a_b'', parse_mode = Some ''Markdown'', reply_markup = None\<rparr>,
       \<lparr>chat_id = 42, msg_text = sanitize_markdown ''a_b'', parse_mode = Some ''MarkdownV2'',
         reply_markup = None\<rparr>,
       \<lparr>chat_id = 42, msg_text = ''ab'', parse_mode = None, reply_markup = None\<rparr>])"
  using
    safe_send_message_results
      [of "\<lambda>calls (r :: unit send_request). if length calls < 2 then BadRequest else OtherError"
          42 "''a_b''" None]
    safe_send_message_results
      [of "\<lambda>calls (r :: unit send_request). BadRequest" 42 "''a_b''" None]
    safe_send_message_results
      [of "\<lambda>calls (r :: unit send_request). Sent" 42 "''a_b''" None]
    safe_send_message_results
      [of "\<lambda>calls (r :: unit send_request). if length calls < 1 then BadRequest else Sent"
          42 "''a_b''" None]
    safe_send_message_results
      [of "\<lambda>calls (r :: unit send_request). if length calls < 2 then BadRequest else Sent"
          42 "''a_b''" None]
  by (simp add: strip_markdown_def)

end
